theory Spec2Isabelle
  imports Main "HOL-Library.Sublist"
begin

section \<open>Strings and POSIX paths\<close>

text \<open>
  The evaluation driver \<^verbatim>\<open>main.py\<close> is a Python script. Its strings are modelled as
  \<^typ>\<open>string\<close>; a character is one byte, and text is taken to be UTF-8 encoded. The path
  functions are those of Python's \<^verbatim>\<open>posixpath\<close>: the separator is \<^verbatim>\<open>/\<close>.
\<close>

definition sep :: char where
  "sep = CHR ''/''"

definition extsep :: char where
  "extsep = CHR ''.''"

definition dq :: string where
  "dq = [CHR 0x22]"

definition sq :: string where
  "sq = [CHR 0x27]"

text \<open>\<^verbatim>\<open>s.startswith('/')\<close> and \<^verbatim>\<open>s.endswith('/')\<close>.\<close>

definition startswith_sep :: "string \<Rightarrow> bool" where
  "startswith_sep s = (case s of [] \<Rightarrow> False | c # _ \<Rightarrow> c = sep)"

definition endswith_sep :: "string \<Rightarrow> bool" where
  "endswith_sep s = (s \<noteq> [] \<and> last s = sep)"

text \<open>\<^verbatim>\<open>s.rstrip('/')\<close>: every trailing separator is removed.\<close>

definition rstrip_sep :: "string \<Rightarrow> string" where
  "rstrip_sep s = rev (dropWhile (\<lambda>c. c = sep) (rev s))"

text \<open>\<^verbatim>\<open>s.replace('.', '/')\<close>.\<close>

definition replace_dots :: "string \<Rightarrow> string" where
  "replace_dots s = map (\<lambda>c. if c = extsep then sep else c) s"

text \<open>\<^verbatim>\<open>s.rfind(c)\<close>: the highest index holding \<open>c\<close>, or \<open>-1\<close>.\<close>

definition rfind :: "char \<Rightarrow> string \<Rightarrow> int" where
  "rfind c s =
     (if c \<in> set s then int (length s) - 1 - int (length (takeWhile (\<lambda>x. x \<noteq> c) (rev s)))
      else - 1)"

text \<open>\<^verbatim>\<open>s.split('/')\<close>: the empty string splits into one empty field.\<close>

fun split_sep :: "string \<Rightarrow> string list" where
  "split_sep [] = [[]]"
| "split_sep (c # cs) =
     (if c = sep then [] # split_sep cs
      else (case split_sep cs of
              [] \<Rightarrow> [[c]]
            | x # xs \<Rightarrow> (c # x) # xs))"

text \<open>
  \<^verbatim>\<open>os.path.join(a, b)\<close>: an absolute \<open>b\<close> discards \<open>a\<close>; otherwise one separator is put
  between them unless \<open>a\<close> is empty or already ends in one. A call with more arguments
  folds from the left.
\<close>

definition path_join :: "string \<Rightarrow> string \<Rightarrow> string" where
  "path_join a b =
     (if startswith_sep b then b
      else if a = [] \<or> endswith_sep a then a @ b
      else a @ [sep] @ b)"

text \<open>\<^verbatim>\<open>os.path.basename(p)\<close>: what follows the last separator.\<close>

definition basename :: "string \<Rightarrow> string" where
  "basename p = drop (nat (rfind sep p + 1)) p"

text \<open>
  \<^verbatim>\<open>os.path.splitext(p)\<close>: the extension starts at the last dot of the last component,
  unless only dots precede it there.
\<close>

definition splitext :: "string \<Rightarrow> string \<times> string" where
  "splitext p =
     (let sepIndex = rfind sep p;
          dotIndex = rfind extsep p
      in if dotIndex > sepIndex \<and>
            list_ex (\<lambda>c. c \<noteq> extsep)
              (take (nat dotIndex - nat (sepIndex + 1)) (drop (nat (sepIndex + 1)) p))
         then (take (nat dotIndex) p, drop (nat dotIndex) p)
         else (p, []))"

text \<open>
  \<^verbatim>\<open>os.path.normpath\<close>: the loop over the components. \<open>slashes\<close> says whether the path starts
  with a separator, \<open>new_comps\<close> is the list built so far.
\<close>

fun norm_loop :: "bool \<Rightarrow> string list \<Rightarrow> string list \<Rightarrow> string list" where
  "norm_loop slashes new_comps [] = new_comps"
| "norm_loop slashes new_comps (cmp # comps) =
     (if cmp = [] \<or> cmp = ''.'' then norm_loop slashes new_comps comps
      else if cmp \<noteq> ''..'' \<or> (\<not> slashes \<and> new_comps = []) \<or>
              (new_comps \<noteq> [] \<and> last new_comps = ''..'')
        then norm_loop slashes (new_comps @ [cmp]) comps
      else if new_comps \<noteq> [] then norm_loop slashes (butlast new_comps) comps
      else norm_loop slashes new_comps comps)"

fun sep_join :: "string list \<Rightarrow> string" where
  "sep_join [] = []"
| "sep_join [x] = x"
| "sep_join (x # y # ys) = x @ [sep] @ sep_join (y # ys)"

definition normpath :: "string \<Rightarrow> string" where
  "normpath path =
     (if path = [] then ''.''
      else
        let initial_slashes =
              (if startswith_sep path then
                 (if take 2 path = [sep, sep] \<and> take 3 path \<noteq> [sep, sep, sep]
                  then 2 else 1)
               else (0::nat));
            comps = norm_loop (initial_slashes \<noteq> 0) [] (split_sep path);
            joined = replicate initial_slashes sep @ sep_join comps
        in if joined = [] then ''.'' else joined)"

text \<open>
  \<^verbatim>\<open>os.path.abspath(p)\<close>; \<open>cwd\<close> is what \<^verbatim>\<open>os.getcwd()\<close> returns.
\<close>

definition abspath :: "string \<Rightarrow> string \<Rightarrow> string" where
  "abspath cwd p = normpath (if startswith_sep p then p else path_join cwd p)"

text \<open>The non-empty components of the absolute path, as \<^verbatim>\<open>relpath\<close> computes them.\<close>

definition abs_list :: "string \<Rightarrow> string \<Rightarrow> string list" where
  "abs_list cwd p = filter (\<lambda>x. x \<noteq> []) (split_sep (abspath cwd p))"

fun commonprefix_len :: "string list \<Rightarrow> string list \<Rightarrow> nat" where
  "commonprefix_len (x # xs) (y # ys) = (if x = y then Suc (commonprefix_len xs ys) else 0)"
| "commonprefix_len _ _ = 0"

section \<open>Exceptions\<close>

text \<open>
  A Python exception is a value; each carries the text that \<^verbatim>\<open>str(e)\<close> gives.
  \<^verbatim>\<open>OSError\<close> stands for its subclasses raised by file operations
  (\<^verbatim>\<open>FileNotFoundError\<close>, \<^verbatim>\<open>NotADirectoryError\<close>, \<^verbatim>\<open>IsADirectoryError\<close>,
  \<^verbatim>\<open>FileExistsError\<close>).
\<close>

datatype JsonKeys =
  ISSUE_ID | URL | BRANCH | COMMIT_HASH | ROOT_DIR | TARGETS
| FILE_NAME | METHOD_NAME | PACKAGE | INNER_CLASS

datatype exn =
  TimeoutExpired string
| ValueError string
| KeyError string
| OSError string
| UnicodeDecodeError string
| OtherException string

fun str_exn :: "exn \<Rightarrow> string" where
  "str_exn (TimeoutExpired m) = m"
| "str_exn (ValueError m) = m"
| "str_exn (KeyError m) = m"
| "str_exn (OSError m) = m"
| "str_exn (UnicodeDecodeError m) = m"
| "str_exn (OtherException m) = m"

text \<open>
  \<^verbatim>\<open>os.path.relpath(path, start)\<close>: raises \<^verbatim>\<open>ValueError\<close> on an empty \<open>path\<close>.
\<close>

definition relpath :: "string \<Rightarrow> string \<Rightarrow> string \<Rightarrow> exn + string" where
  "relpath cwd path start =
     (if path = [] then Inl (ValueError ''no path specified'')
      else
        let start_list = abs_list cwd start;
            path_list = abs_list cwd path;
            i = commonprefix_len start_list path_list;
            rel_list = replicate (length start_list - i) ''..'' @ drop i path_list
        in if rel_list = [] then Inr ''.''
           else Inr (foldl path_join (hd rel_list) (tl rel_list)))"

section \<open>The command synthesizer\<close>

definition specimin_input :: string where
  "specimin_input = ''input''"

definition specimin_output :: string where
  "specimin_output = ''output''"

text \<open>
  A target descriptor is a dictionary read from JSON. Its keys are the values of the
  members of the enumeration \<^verbatim>\<open>JsonKeys\<close> (module \<^verbatim>\<open>Keyvalue\<close>); the model indexes the
  dictionary by the member. Its values are taken to be strings. Looking up an absent key
  raises \<^verbatim>\<open>KeyError\<close>.
\<close>

type_synonym target = "JsonKeys \<rightharpoonup> string"

text \<open>
  The text of a \<^verbatim>\<open>KeyError\<close> names the key; the values of the members are defined in the
  module \<^verbatim>\<open>Keyvalue\<close>, so the name of the member stands for the key here.
\<close>

definition key_name :: "JsonKeys \<Rightarrow> string" where
  "key_name k =
     (case k of
        ISSUE_ID \<Rightarrow> ''ISSUE_ID'' | URL \<Rightarrow> ''URL'' | BRANCH \<Rightarrow> ''BRANCH''
      | COMMIT_HASH \<Rightarrow> ''COMMIT_HASH'' | ROOT_DIR \<Rightarrow> ''ROOT_DIR'' | TARGETS \<Rightarrow> ''TARGETS''
      | FILE_NAME \<Rightarrow> ''FILE_NAME'' | METHOD_NAME \<Rightarrow> ''METHOD_NAME''
      | PACKAGE \<Rightarrow> ''PACKAGE'' | INNER_CLASS \<Rightarrow> ''INNER_CLASS'')"

definition getitem :: "(JsonKeys \<rightharpoonup> 'v) \<Rightarrow> JsonKeys \<Rightarrow> exn + 'v" where
  "getitem d k = (case d k of None \<Rightarrow> Inl (KeyError (key_name k)) | Some v \<Rightarrow> Inr v)"

text \<open>
  The inner-class part of a qualified method name: \<^verbatim>\<open>"." + inner_class\<close> when the key is
  present with a non-empty value, and empty otherwise.
\<close>

definition inner_class_name :: "target \<Rightarrow> string" where
  "inner_class_name t =
     (case t INNER_CLASS of
        None \<Rightarrow> []
      | Some ic \<Rightarrow> if ic \<noteq> [] then ''.'' @ ic else [])"

text \<open>
  The loop of \<^verbatim>\<open>build_specimin_command\<close> over the targets, with the two lists it appends
  to.
\<close>

fun target_loop ::
  "target list \<Rightarrow> string list \<Rightarrow> string list \<Rightarrow> exn + (string list \<times> string list)" where
  "target_loop [] target_file_list target_method_list =
     Inr (target_file_list, target_method_list)"
| "target_loop (t # ts) target_file_list target_method_list =
     (case getitem t METHOD_NAME of
        Inl e \<Rightarrow> Inl e
      | Inr method_name \<Rightarrow>
         (case getitem t FILE_NAME of
            Inl e \<Rightarrow> Inl e
          | Inr file_name \<Rightarrow>
             (case getitem t PACKAGE of
                Inl e \<Rightarrow> Inl e
              | Inr package_name \<Rightarrow>
                 (let dot_replaced_package_name = replace_dots package_name;
                      fl = (if file_name \<noteq> []
                            then target_file_list @
                                   [path_join dot_replaced_package_name file_name]
                            else target_file_list);
                      ml = (if method_name \<noteq> []
                            then target_method_list @
                                   [package_name @ ''.'' @ fst (splitext file_name) @
                                    inner_class_name t @ ''#'' @ method_name]
                            else target_method_list)
                  in target_loop ts fl ml))))"

definition target_file_flag :: "string \<Rightarrow> string" where
  "target_file_flag file = ''--targetFile'' @ '' '' @ dq @ file @ dq"

definition target_method_flag :: "string \<Rightarrow> string" where
  "target_method_flag method = ''--targetMethod'' @ '' '' @ dq @ method @ dq"

text \<open>
  The assembly of the command from the two directories and the two target lists: the
  sub-commands, the argument string, and the invocation around it.
\<close>

definition assemble_command :: "string \<Rightarrow> string \<Rightarrow> string list \<Rightarrow> string list \<Rightarrow> string" where
  "assemble_command output_dir root_dir target_file_list target_method_list =
     (let output_dir_subcommand = ''--outputDirectory'' @ '' '' @ dq @ output_dir @ dq;
          root_dir_subcommand = ''--root'' @ '' '' @ dq @ root_dir @ dq;
          target_file_subcommand =
            foldl (\<lambda>acc file. acc @ target_file_flag file) [] target_file_list;
          target_method_subcommand =
            foldl (\<lambda>acc method. acc @ target_method_flag method) [] target_method_list;
          command_args =
            root_dir_subcommand @ '' '' @ output_dir_subcommand @ '' '' @
            target_file_subcommand @ '' '' @ target_method_subcommand
      in ''./gradlew'' @ '' '' @ ''run'' @ '' '' @ ''--args='' @ sq @ command_args @ sq)"

text \<open>
  \<^verbatim>\<open>build_specimin_command\<close>. \<open>cwd\<close> is the process's working directory, on which
  \<^verbatim>\<open>os.path.relpath\<close> depends.
\<close>

definition build_specimin_command ::
  "string \<Rightarrow> string \<Rightarrow> string \<Rightarrow> string \<Rightarrow> string \<Rightarrow> target list \<Rightarrow> exn + string" where
  "build_specimin_command cwd project_name issue_input_dir specimin_dir root_dir targets =
     (case relpath cwd issue_input_dir specimin_dir of
        Inl e \<Rightarrow> Inl e
      | Inr relative_path_of_target_dir \<Rightarrow>
         (let output_dir = path_join relative_path_of_target_dir specimin_output;
              root_dir1 = path_join (path_join (path_join relative_path_of_target_dir
                            specimin_input) project_name) root_dir;
              root_dir2 = rstrip_sep root_dir1 @ [sep]
          in (case target_loop targets [] [] of
                Inl e \<Rightarrow> Inl e
              | Inr (target_file_list, target_method_list) \<Rightarrow>
                  Inr (assemble_command output_dir root_dir2
                         target_file_list target_method_list))))"

text \<open>
  The value a target descriptor holds under a key, read as the empty string when the key
  is absent; used to state properties of descriptors.
\<close>

definition field :: "target \<Rightarrow> JsonKeys \<Rightarrow> string" where
  "field t k = (case t k of None \<Rightarrow> [] | Some v \<Rightarrow> v)"

text \<open>
  The scenario of the specification: one target, file \<^verbatim>\<open>Foo.java\<close>, method \<^verbatim>\<open>bar\<close>, package
  \<^verbatim>\<open>com.example\<close>, no inner class, and the command that is synthesized for it.
\<close>

definition scenario_targets :: "target list" where
  "scenario_targets =
     [[METHOD_NAME \<mapsto> ''bar'', FILE_NAME \<mapsto> ''Foo.java'', PACKAGE \<mapsto> ''com.example'',
       INNER_CLASS \<mapsto> '''']]"

definition scenario_command :: string where
  "scenario_command =
     ''./gradlew run --args='' @ sq @
     ''--root '' @ dq @ ''../cf-6282/input/nomulus/core/src/main/java/'' @ dq @
     '' --outputDirectory '' @ dq @ ''../cf-6282/output'' @ dq @
     '' --targetFile '' @ dq @ ''com/example/Foo.java'' @ dq @
     '' --targetMethod '' @ dq @ ''com.example.Foo#bar'' @ dq @ sq"

section \<open>The file system and external processes\<close>

text \<open>
  The file system is a finite tree without symbolic links: a map from absolute paths,
  given by their components, to nodes. The root (the empty component list) is a
  directory. A path string is resolved lexically, as \<^verbatim>\<open>os.path.abspath\<close> does, against the
  working directory of the process; permissions are not modelled. The text of a file is
  its UTF-8 encoding.
\<close>

datatype node = Dir | File string

type_synonym filesystem = "string list \<rightharpoonup> node"

text \<open>
  A command given to \<^verbatim>\<open>subprocess.run\<close> is an argument list, or a string for the shell
  (\<^verbatim>\<open>shell=True\<close>).
\<close>

datatype command = Args "string list" | Shell string

record completed_process =
  returncode :: int
  stdout :: string
  stderr :: string

text \<open>
  The state of the world: the file system, the working directory of the process, and the
  external commands run so far, each with the directory it ran in.
\<close>

record world =
  files :: filesystem
  getcwd :: string
  calls :: "(command \<times> string) list"

text \<open>
  Git and the minimizer are external programs. What a run of one does is a parameter of
  the model: given the command, its working directory, the timeout, and the world (which
  holds the history of earlier runs, so that a repeated command may behave differently),
  it either completes with an exit code and its captured output, or the call raises
  (\<^verbatim>\<open>TimeoutExpired\<close> when the timeout elapses); and it leaves a file system behind.
\<close>

type_synonym process =
  "command \<Rightarrow> string \<Rightarrow> nat option \<Rightarrow> world \<Rightarrow> (exn + completed_process) \<times> filesystem"

text \<open>A step that may raise is a function from the world to a result and a new world.\<close>

definition and_then ::
  "(exn + 'a) \<times> world \<Rightarrow> ('a \<Rightarrow> world \<Rightarrow> (exn + 'b) \<times> world) \<Rightarrow> (exn + 'b) \<times> world" where
  "and_then m k = (case m of (Inl e, w) \<Rightarrow> (Inl e, w) | (Inr a, w) \<Rightarrow> k a w)"

text \<open>\<^verbatim>\<open>subprocess.run(command, cwd=directory, timeout=...)\<close>: the run is recorded.\<close>

definition subprocess_run ::
  "process \<Rightarrow> command \<Rightarrow> string \<Rightarrow> nat option \<Rightarrow> world \<Rightarrow> (exn + completed_process) \<times> world" where
  "subprocess_run proc c directory timeout w =
     (case proc c directory timeout w of
        (r, f) \<Rightarrow> (r, w\<lparr>files := f, calls := calls w @ [(c, directory)]\<rparr>))"

text \<open>The messages of the operating-system errors, as \<^verbatim>\<open>str(e)\<close> prints them.\<close>

definition enoent :: "string \<Rightarrow> exn" where
  "enoent p = OSError (''[Errno 2] No such file or directory: '' @ sq @ p @ sq)"

definition eexist :: "string \<Rightarrow> exn" where
  "eexist p = OSError (''[Errno 17] File exists: '' @ sq @ p @ sq)"

definition enotdir :: "string \<Rightarrow> exn" where
  "enotdir p = OSError (''[Errno 20] Not a directory: '' @ sq @ p @ sq)"

definition eisdir :: "string \<Rightarrow> exn" where
  "eisdir p = OSError (''[Errno 21] Is a directory: '' @ sq @ p @ sq)"

text \<open>
  The node a path string names, if any. The empty string names nothing, and a path
  ending in a separator names only a directory.
\<close>

definition node_at :: "world \<Rightarrow> string \<Rightarrow> node option" where
  "node_at w p =
     (if p = [] then None
      else
        let comps = abs_list (getcwd w) p
        in if comps = [] then Some Dir
           else (case files w comps of
                   Some (File text) \<Rightarrow> if endswith_sep p then None else Some (File text)
                 | r \<Rightarrow> r))"

text \<open>\<^verbatim>\<open>os.path.exists\<close> and \<^verbatim>\<open>os.path.isdir\<close>.\<close>

definition path_exists :: "world \<Rightarrow> string \<Rightarrow> bool" where
  "path_exists w p = (node_at w p \<noteq> None)"

definition isdir :: "world \<Rightarrow> string \<Rightarrow> bool" where
  "isdir w p = (node_at w p = Some Dir)"

text \<open>
  \<^verbatim>\<open>os.makedirs(name, exist_ok=True)\<close> creates every missing directory on the way to
  \<open>name\<close>, from the root down; it raises when a component on the way, or \<open>name\<close> itself,
  is a file. The directories created before the failure stay.
\<close>

fun mkdir_chain ::
  "string \<Rightarrow> filesystem \<Rightarrow> string list \<Rightarrow> string list \<Rightarrow> (exn + unit) \<times> filesystem" where
  "mkdir_chain p f pre [] = (Inr (), f)"
| "mkdir_chain p f pre (c # cs) =
     (case f (pre @ [c]) of
        Some (File text) \<Rightarrow> (Inl (if cs = [] then eexist p else enotdir p), f)
      | Some Dir \<Rightarrow> mkdir_chain p f (pre @ [c]) cs
      | None \<Rightarrow> mkdir_chain p (f(pre @ [c] \<mapsto> Dir)) (pre @ [c]) cs)"

definition makedirs :: "string \<Rightarrow> world \<Rightarrow> (exn + unit) \<times> world" where
  "makedirs p w =
     (if p = [] then (Inl (enoent p), w)
      else (case mkdir_chain p (files w) [] (abs_list (getcwd w) p) of
              (r, f) \<Rightarrow> (r, w\<lparr>files := f\<rparr>)))"

text \<open>\<^verbatim>\<open>shutil.rmtree(path)\<close> removes a directory with everything below it.\<close>

definition rmtree :: "string \<Rightarrow> world \<Rightarrow> (exn + unit) \<times> world" where
  "rmtree p w =
     (case node_at w p of
        None \<Rightarrow> (Inl (enoent p), w)
      | Some (File text) \<Rightarrow> (Inl (enotdir p), w)
      | Some Dir \<Rightarrow>
          (Inr (), w\<lparr>files := (\<lambda>q. if prefix (abs_list (getcwd w) p) q then None
                                     else files w q)\<rparr>))"

text \<open>\<^verbatim>\<open>os.remove(path)\<close> removes a file.\<close>

definition os_remove :: "string \<Rightarrow> world \<Rightarrow> (exn + unit) \<times> world" where
  "os_remove p w =
     (case node_at w p of
        None \<Rightarrow> (Inl (enoent p), w)
      | Some Dir \<Rightarrow> (Inl (eisdir p), w)
      | Some (File text) \<Rightarrow> (Inr (), w\<lparr>files := (files w)(abs_list (getcwd w) p := None)\<rparr>))"

text \<open>
  \<^verbatim>\<open>open(path, 'w')\<close> creates the file, or empties it when it exists; the directory that
  is to hold it must exist.
\<close>

definition open_w :: "string \<Rightarrow> world \<Rightarrow> (exn + unit) \<times> world" where
  "open_w p w =
     (if p = [] then (Inl (enoent p), w)
      else
        let comps = abs_list (getcwd w) p
        in if comps = [] \<or> files w comps = Some Dir \<or> endswith_sep p
           then (Inl (eisdir p), w)
           else (case (if butlast comps = [] then Some Dir else files w (butlast comps)) of
                   None \<Rightarrow> (Inl (enoent p), w)
                 | Some (File text) \<Rightarrow> (Inl (enotdir p), w)
                 | Some Dir \<Rightarrow> (Inr (), w\<lparr>files := (files w)(comps \<mapsto> File [])\<rparr>)))"

text \<open>\<^verbatim>\<open>file.write(text)\<close> on the file opened at \<open>p\<close>, and its closing.\<close>

definition write_text :: "string \<Rightarrow> string \<Rightarrow> world \<Rightarrow> world" where
  "write_text p text w = w\<lparr>files := (files w)(abs_list (getcwd w) p \<mapsto> File text)\<rparr>"

text \<open>
  \<^verbatim>\<open>bytes.decode("utf-8")\<close> accepts the well-formed byte sequences of UTF-8 (no overlong
  forms, no surrogates, nothing above U+10FFFF) and raises \<^verbatim>\<open>UnicodeDecodeError\<close> on any
  other. The text of the error, which names the offending byte, is abridged.
\<close>

definition continuation :: "nat \<Rightarrow> bool" where
  "continuation c = (0x80 \<le> c \<and> c \<le> 0xBF)"

fun utf8_valid :: "nat list \<Rightarrow> bool" where
  "utf8_valid [] = True"
| "utf8_valid (b # bs) =
     (if b < 0x80 then utf8_valid bs
      else if 0xC2 \<le> b \<and> b \<le> 0xDF then
        (case bs of
           c1 # r \<Rightarrow> continuation c1 \<and> utf8_valid r
         | _ \<Rightarrow> False)
      else if 0xE0 \<le> b \<and> b \<le> 0xEF then
        (case bs of
           c1 # c2 # r \<Rightarrow>
             (if b = 0xE0 then 0xA0 \<le> c1 \<and> c1 \<le> 0xBF
              else if b = 0xED then 0x80 \<le> c1 \<and> c1 \<le> 0x9F
              else continuation c1) \<and>
             continuation c2 \<and> utf8_valid r
         | _ \<Rightarrow> False)
      else if 0xF0 \<le> b \<and> b \<le> 0xF4 then
        (case bs of
           c1 # c2 # c3 # r \<Rightarrow>
             (if b = 0xF0 then 0x90 \<le> c1 \<and> c1 \<le> 0xBF
              else if b = 0xF4 then 0x80 \<le> c1 \<and> c1 \<le> 0x8F
              else continuation c1) \<and>
             continuation c2 \<and> continuation c3 \<and> utf8_valid r
         | _ \<Rightarrow> False)
      else False)"

definition decode_utf8 :: "string \<Rightarrow> exn + string" where
  "decode_utf8 bs =
     (if utf8_valid (map of_char bs) then Inr bs
      else Inl (UnicodeDecodeError ''utf-8 codec cannot decode bytes''))"

section \<open>The evaluation pipeline\<close>

definition issue_folder_dir :: string where
  "issue_folder_dir = ''ISSUES''"

definition specimin_project_name :: string where
  "specimin_project_name = ''specimin''"

definition TIMEOUT_DURATION :: nat where
  "TIMEOUT_DURATION = 300"

text \<open>The class \<^verbatim>\<open>Result\<close> (module \<^verbatim>\<open>Result\<close>): a name, a status and a reason.\<close>

datatype Result = Result (name: string) (status: string) (reason: string)

text \<open>
  A record of the issue corpus. \<^verbatim>\<open>performEvaluation\<close> reads each of its six keys
  unconditionally; the values are taken to be of the types the code expects. The key
  \<^verbatim>\<open>"issue_id"\<close> that \<^verbatim>\<open>main\<close> reads is the value of \<^verbatim>\<open>JsonKeys.ISSUE_ID\<close>.
\<close>

record issue_data =
  issue_id :: string
  url :: string
  branch :: string
  commit_hash :: string
  root_dir :: string
  targets :: "target list"

definition get_repository_name :: "string \<Rightarrow> string" where
  "get_repository_name github_ssh = fst (splitext (basename github_ssh))"

text \<open>
  \<^verbatim>\<open>create_issue_directory\<close>. The test before \<^verbatim>\<open>shutil.rmtree\<close> and the call itself are on
  \<^verbatim>\<open>specimin_output\<close>, the name \<^verbatim>\<open>'output'\<close> relative to the working directory, as in the
  source.
\<close>

definition create_issue_directory :: "string \<Rightarrow> string \<Rightarrow> world \<Rightarrow> (exn + string) \<times> world" where
  "create_issue_directory issue_container_dir issue_id' w =
     (let issue_directory_name = path_join issue_container_dir issue_id'
      in and_then (makedirs issue_directory_name w) (\<lambda>_ w1.
           let specimin_input_dir = path_join issue_directory_name specimin_input;
               specimin_output_dir = path_join issue_directory_name specimin_output
           in and_then (makedirs specimin_input_dir w1) (\<lambda>_ w2.
                and_then (if path_exists w2 specimin_output then rmtree specimin_output w2
                          else (Inr (), w2)) (\<lambda>_ w3.
                  and_then (makedirs specimin_output_dir w3) (\<lambda>_ w4.
                    (Inr specimin_input_dir, w4))))))"

definition is_git_directory :: "string \<Rightarrow> world \<Rightarrow> bool" where
  "is_git_directory dir w =
     (let git_dir_path = path_join dir ''.git''
      in path_exists w git_dir_path \<and> isdir w git_dir_path)"

definition clone_repository :: "process \<Rightarrow> string \<Rightarrow> string \<Rightarrow> world \<Rightarrow> (exn + unit) \<times> world" where
  "clone_repository proc url' directory w =
     (let project_name = get_repository_name url'
      in if path_exists w (directory @ ''/'' @ project_name) then (Inr (), w)
         else and_then (subprocess_run proc (Args [''git'', ''clone'', url']) directory None w)
                (\<lambda>_ w1. (Inr (), w1)))"

definition change_branch :: "process \<Rightarrow> string \<Rightarrow> string \<Rightarrow> world \<Rightarrow> (exn + unit) \<times> world" where
  "change_branch proc branch' directory w =
     (if \<not> is_git_directory directory w
      then (Inl (ValueError (directory @ '' is not a valid git directory'')), w)
      else and_then
             (subprocess_run proc (Args [''git'', ''checkout'', branch']) directory None w)
             (\<lambda>_ w1. (Inr (), w1)))"

definition checkout_commit :: "process \<Rightarrow> string \<Rightarrow> string \<Rightarrow> world \<Rightarrow> (exn + bool) \<times> world" where
  "checkout_commit proc commit_hash' directory w =
     (if \<not> is_git_directory directory w
      then (Inl (ValueError (directory @ '' is not a valid git directory'')), w)
      else and_then
             (subprocess_run proc (Args [''git'', ''checkout'', commit_hash']) directory None w)
             (\<lambda>result w1. (Inr (returncode result = 0), w1)))"

text \<open>The path of the error log of an issue.\<close>

definition error_msg_file :: "string \<Rightarrow> string" where
  "error_msg_file issue_name =
     path_join (path_join issue_folder_dir issue_name) (issue_name @ ''_error.txt'')"

text \<open>
  The body of the \<^verbatim>\<open>try\<close> statement of \<^verbatim>\<open>run_specimin\<close>. Inside the \<^verbatim>\<open>with\<close> block the file
  is opened first and the captured error output decoded next, so a failure to decode
  leaves the file empty.
\<close>

definition run_specimin_try ::
  "process \<Rightarrow> string \<Rightarrow> string \<Rightarrow> string \<Rightarrow> world \<Rightarrow> (exn + Result) \<times> world" where
  "run_specimin_try proc issue_name cmd directory w =
     and_then (subprocess_run proc (Shell cmd) directory (Some TIMEOUT_DURATION) w)
       (\<lambda>result w1.
          if returncode result = 0 then (Inr (Result issue_name ''PASS'' []), w1)
          else
            and_then (if path_exists w1 (error_msg_file issue_name)
                      then os_remove (error_msg_file issue_name) w1
                      else (Inr (), w1)) (\<lambda>_ w2.
              and_then (open_w (error_msg_file issue_name) w2) (\<lambda>_ w3.
                (case decode_utf8 (stderr result) of
                   Inl e \<Rightarrow> (Inl e, w3)
                 | Inr text \<Rightarrow>
                     (Inr (Result issue_name ''FAIL'' (error_msg_file issue_name)),
                      write_text (error_msg_file issue_name) text w3)))))"

text \<open>
  \<^verbatim>\<open>run_specimin\<close>: the two \<^verbatim>\<open>except\<close> clauses turn every exception of the body into a
  result.
\<close>

definition run_specimin ::
  "process \<Rightarrow> string \<Rightarrow> string \<Rightarrow> string \<Rightarrow> world \<Rightarrow> Result \<times> world" where
  "run_specimin proc issue_name cmd directory w =
     (case run_specimin_try proc issue_name cmd directory w of
        (Inr result, w1) \<Rightarrow> (result, w1)
      | (Inl (TimeoutExpired m), w1) \<Rightarrow> (Result issue_name ''FAIL'' ''Timeout'', w1)
      | (Inl e, w1) \<Rightarrow>
          (Result issue_name ''FAIL'' (''Unhandled exception occurred: '' @ str_exn e), w1))"

definition performEvaluation :: "process \<Rightarrow> issue_data \<Rightarrow> world \<Rightarrow> (exn + Result) \<times> world" where
  "performEvaluation proc issue w =
     and_then (create_issue_directory issue_folder_dir (issue_id issue) w) (\<lambda>input_dir w1.
       and_then (clone_repository proc (url issue) input_dir w1) (\<lambda>_ w2.
         let repo_name = get_repository_name (url issue)
         in and_then (if branch issue \<noteq> []
                      then change_branch proc (branch issue) (input_dir @ ''/'' @ repo_name) w2
                      else (Inr (), w2)) (\<lambda>_ w3.
              and_then (if commit_hash issue \<noteq> []
                        then and_then (checkout_commit proc (commit_hash issue)
                                         (input_dir @ ''/'' @ repo_name) w3)
                               (\<lambda>_ w4. (Inr (), w4))
                        else (Inr (), w3)) (\<lambda>_ w4.
                (case build_specimin_command (getcwd w4) repo_name
                        (path_join issue_folder_dir (issue_id issue))
                        (path_join issue_folder_dir specimin_project_name)
                        (root_dir issue) (targets issue) of
                   Inl e \<Rightarrow> (Inl e, w4)
                 | Inr specimin_command \<Rightarrow>
                     (case run_specimin proc (issue_id issue) specimin_command
                             (path_join issue_folder_dir specimin_project_name) w4 of
                        (result, w5) \<Rightarrow> (Inr result, w5)))))))"


section \<open>Worlds and processes for the scenarios\<close>


text \<open>
  A world after an earlier run for issue \<^verbatim>\<open>cf-1\<close>: a cloned repository in the input
  directory, a minimized file left in the output directory, and an error log.
\<close>

definition stale_world :: world where
  "stale_world =
     \<lparr>files =
        [[''home''] \<mapsto> Dir,
         [''home'', ''user''] \<mapsto> Dir,
         [''home'', ''user'', ''ISSUES''] \<mapsto> Dir,
         [''home'', ''user'', ''ISSUES'', ''specimin''] \<mapsto> Dir,
         [''home'', ''user'', ''ISSUES'', ''cf-1''] \<mapsto> Dir,
         [''home'', ''user'', ''ISSUES'', ''cf-1'', ''cf-1_error.txt''] \<mapsto> File ''old log'',
         [''home'', ''user'', ''ISSUES'', ''cf-1'', ''input''] \<mapsto> Dir,
         [''home'', ''user'', ''ISSUES'', ''cf-1'', ''input'', ''repo''] \<mapsto> Dir,
         [''home'', ''user'', ''ISSUES'', ''cf-1'', ''input'', ''repo'', ''.git''] \<mapsto> Dir,
         [''home'', ''user'', ''ISSUES'', ''cf-1'', ''output''] \<mapsto> Dir,
         [''home'', ''user'', ''ISSUES'', ''cf-1'', ''output'', ''Old.java''] \<mapsto> File ''stale''],
      getcwd = ''/home/user'',
      calls = []\<rparr>"

text \<open>A world in which nothing has been set up for any issue.\<close>

definition bare_world :: world where
  "bare_world =
     \<lparr>files =
        [[''home''] \<mapsto> Dir,
         [''home'', ''user''] \<mapsto> Dir,
         [''home'', ''user'', ''ISSUES''] \<mapsto> Dir,
         [''home'', ''user'', ''ISSUES'', ''specimin''] \<mapsto> Dir],
      getcwd = ''/home/user'',
      calls = []\<rparr>"

text \<open>
  A process that touches no file and exits with the given code and error output, and one
  that runs into the timeout.
\<close>

definition exits_with :: "int \<Rightarrow> string \<Rightarrow> process" where
  "exits_with code err c directory timeout w =
     (Inr \<lparr>returncode = code, stdout = [], stderr = err\<rparr>, files w)"

definition times_out :: process where
  "times_out c directory timeout w = (Inl (TimeoutExpired ''timed out''), files w)"

text \<open>Issues of a corpus: one without a branch or a commit, and one that names a branch.\<close>

definition repo_url :: string where
  "repo_url = ''https://example.org/repo.git''"


definition branch_issue :: issue_data where
  "branch_issue =
     \<lparr>issue_id = ''cf-2'', url = repo_url, branch = ''dev'',
      commit_hash = [], root_dir = ''src'', targets = scenario_targets\<rparr>"


text \<open>A process that succeeds and leaves a directory at the given place, as a clone does.\<close>

definition clones_into :: "string list \<Rightarrow> process" where
  "clones_into p c directory timeout w =
     (Inr \<lparr>returncode = 0, stdout = [], stderr = []\<rparr>, (files w)(p \<mapsto> Dir))"


section \<open>Properties of the command synthesizer\<close>

lemma target_loop_closed:
  "target_loop ts fl ml = Inr (fl', ml') \<Longrightarrow>
     fl' = fl @ map (\<lambda>t. path_join (replace_dots (field t PACKAGE)) (field t FILE_NAME))
                 (filter (\<lambda>t. field t FILE_NAME \<noteq> []) ts) \<and>
     ml' = ml @ map (\<lambda>t. field t PACKAGE @ ''.'' @ fst (splitext (field t FILE_NAME)) @
                        inner_class_name t @ ''#'' @ field t METHOD_NAME)
                 (filter (\<lambda>t. field t METHOD_NAME \<noteq> []) ts)"
proof (induction ts arbitrary: fl ml)
  case Nil
  then show ?case by simp
next
  case (Cons t ts)
  from Cons.prems obtain m f p where
    k: "t METHOD_NAME = Some m" "t FILE_NAME = Some f" "t PACKAGE = Some p"
    by (auto simp: getitem_def split: option.splits)
  have fld: "field t METHOD_NAME = m" "field t FILE_NAME = f" "field t PACKAGE = p"
    using k by (simp_all add: field_def)
  let ?fl = "if f \<noteq> [] then fl @ [path_join (replace_dots p) f] else fl"
  let ?ml = "if m \<noteq> []
             then ml @ [p @ ''.'' @ fst (splitext f) @ inner_class_name t @ ''#'' @ m]
             else ml"
  have "target_loop ts ?fl ?ml = Inr (fl', ml')"
    using Cons.prems k by (simp add: getitem_def Let_def)
  from Cons.IH [OF this] show ?case
    by (simp add: fld)
qed


lemma foldl_flags: "foldl (\<lambda>acc x. acc @ f x) a xs = a @ concat (map f xs)"
  by (induction xs arbitrary: a) auto

lemma assemble_command_eq:
  "assemble_command output_dir root fl ml =
     ''./gradlew run --args='' @ sq @ ''--root '' @ dq @ root @ dq @
     '' --outputDirectory '' @ dq @ output_dir @ dq @ '' '' @
     concat (map (\<lambda>f. ''--targetFile '' @ dq @ f @ dq) fl) @ '' '' @
     concat (map (\<lambda>m. ''--targetMethod '' @ dq @ m @ dq) ml) @ sq"
  by (simp add: assemble_command_def foldl_flags target_file_flag_def target_method_flag_def)

lemma build_explicit:
  assumes "build_specimin_command cwd pn iid sd rd tgts = Inr command"
  shows "\<exists>rel. relpath cwd iid sd = Inr rel \<and>
           command =
             ''./gradlew run --args='' @ sq @ ''--root '' @ dq @
             (rstrip_sep (path_join (path_join (path_join rel specimin_input) pn) rd) @ [sep]) @
             dq @ '' --outputDirectory '' @ dq @ path_join rel specimin_output @ dq @ '' '' @
             concat (map (\<lambda>t. ''--targetFile '' @ dq @
                              path_join (replace_dots (field t PACKAGE)) (field t FILE_NAME) @ dq)
                       (filter (\<lambda>t. field t FILE_NAME \<noteq> []) tgts)) @
             '' '' @
             concat (map (\<lambda>t. ''--targetMethod '' @ dq @
                              (field t PACKAGE @ ''.'' @ fst (splitext (field t FILE_NAME)) @
                               inner_class_name t @ ''#'' @ field t METHOD_NAME) @ dq)
                       (filter (\<lambda>t. field t METHOD_NAME \<noteq> []) tgts)) @ sq"
proof -
  from assms obtain rel where rel: "relpath cwd iid sd = Inr rel"
    by (auto simp: build_specimin_command_def split: sum.splits)
  from assms rel obtain fl ml where tl: "target_loop tgts [] [] = Inr (fl, ml)"
    by (auto simp: build_specimin_command_def Let_def split: sum.splits)
  from target_loop_closed [OF tl] assms rel tl show ?thesis
    by (simp add: build_specimin_command_def Let_def assemble_command_eq comp_def)
qed





lemma scenario_build:
  "build_specimin_command ''/home/user'' ''nomulus'' ''ISSUES/cf-6282'' ''ISSUES/specimin''
     ''core/src/main/java'' scenario_targets = Inr scenario_command"
  by code_simp

text \<open>
  Claim C4. Whenever \<^verbatim>\<open>build_specimin_command\<close> returns a command, the file flags of that
  command are, in the order of the input, one \<^verbatim>\<open>--targetFile "<path>"\<close> for each target
  descriptor whose \<^verbatim>\<open>file_name\<close> is not empty, and \<^verbatim>\<open><path>\<close> is the package with every dot
  replaced by the path separator, joined (\<^verbatim>\<open>os.path.join\<close>) with the file name. A descriptor
  with an empty \<^verbatim>\<open>file_name\<close> contributes no such flag.
\<close>

theorem target_file_paths:
  assumes "build_specimin_command cwd project_name issue_input_dir specimin_dir rootd tgts
             = Inr command"
  shows "\<exists>root output_dir methods.
           command =
             ''./gradlew run --args='' @ sq @ ''--root '' @ dq @ root @ dq @
             '' --outputDirectory '' @ dq @ output_dir @ dq @ '' '' @
             concat (map (\<lambda>t. ''--targetFile '' @ dq @
                              path_join (replace_dots (field t PACKAGE)) (field t FILE_NAME) @ dq)
                       (filter (\<lambda>t. field t FILE_NAME \<noteq> []) tgts)) @
             '' '' @ methods @ sq"
  using build_explicit [OF assms] by blast

theorem target_file_paths_witness:
  "\<exists>root output_dir methods.
     scenario_command =
       ''./gradlew run --args='' @ sq @ ''--root '' @ dq @ root @ dq @
       '' --outputDirectory '' @ dq @ output_dir @ dq @ '' '' @
       (''--targetFile '' @ dq @ ''com/example/Foo.java'' @ dq) @
       '' '' @ methods @ sq"
  using target_file_paths [OF scenario_build]
  by (simp add: scenario_targets_def field_def path_join_def replace_dots_def
        startswith_sep_def endswith_sep_def sep_def extsep_def)

text \<open>
  Claim C5. Whenever \<^verbatim>\<open>build_specimin_command\<close> returns a command, the method flags of that
  command are, in the order of the input, one \<^verbatim>\<open>--targetMethod "<name>"\<close> for each target
  descriptor whose \<^verbatim>\<open>method_name\<close> is not empty, and \<^verbatim>\<open><name>\<close> is the package, a dot, the
  file name without its extension, then a dot and the inner class when that key is present
  and not empty, then \<^verbatim>\<open>#\<close> and the method name. This holds in particular for the
  descriptors whose \<^verbatim>\<open>file_name\<close> is not empty.
\<close>

theorem target_method_names:
  assumes "build_specimin_command cwd project_name issue_input_dir specimin_dir rootd tgts
             = Inr command"
  shows "\<exists>root output_dir files.
           command =
             ''./gradlew run --args='' @ sq @ ''--root '' @ dq @ root @ dq @
             '' --outputDirectory '' @ dq @ output_dir @ dq @ '' '' @ files @ '' '' @
             concat (map (\<lambda>t. ''--targetMethod '' @ dq @
                              (field t PACKAGE @ ''.'' @ fst (splitext (field t FILE_NAME)) @
                               (case t INNER_CLASS of
                                  None \<Rightarrow> []
                                | Some ic \<Rightarrow> if ic \<noteq> [] then ''.'' @ ic else []) @
                               ''#'' @ field t METHOD_NAME) @ dq)
                       (filter (\<lambda>t. field t METHOD_NAME \<noteq> []) tgts)) @ sq"
  using build_explicit [OF assms] unfolding inner_class_name_def by blast

theorem target_method_names_witness:
  "\<exists>root output_dir files.
     scenario_command =
       ''./gradlew run --args='' @ sq @ ''--root '' @ dq @ root @ dq @
       '' --outputDirectory '' @ dq @ output_dir @ dq @ '' '' @ files @ '' '' @
       (''--targetMethod '' @ dq @ ''com.example.Foo#bar'' @ dq) @ sq"
proof -
  have stem: "fst (splitext ''Foo.java'') = ''Foo''"
    by code_simp
  show ?thesis
    using target_method_names [OF scenario_build]
    by (simp add: scenario_targets_def field_def stem)
qed



section \<open>Properties of the execution engine\<close>






lemma run_timeout:
  assumes "proc (Shell cmd) directory (Some TIMEOUT_DURATION) w = (Inl (TimeoutExpired m), f)"
  shows "run_specimin proc issue_name cmd directory w =
           (Result issue_name ''FAIL'' ''Timeout'',
            w\<lparr>files := f, calls := calls w @ [(Shell cmd, directory)]\<rparr>)"
  using assms
  by (simp add: run_specimin_def run_specimin_try_def subprocess_run_def and_then_def)







text \<open>
  Claim C8. When the minimizer runs into the timeout, \<^verbatim>\<open>run_specimin\<close> returns the result
  with the issue name, the status \<^verbatim>\<open>FAIL\<close> and the reason \<^verbatim>\<open>Timeout\<close>, and the world it leaves
  is the one the timed-out process left, with the run recorded: \<^verbatim>\<open>run_specimin\<close> itself
  creates, removes and writes no file.
\<close>

theorem timeout_leaves_files:
  assumes "proc (Shell cmd) directory (Some TIMEOUT_DURATION) w = (Inl (TimeoutExpired m), f)"
  shows "run_specimin proc issue_name cmd directory w =
           (Result issue_name ''FAIL'' ''Timeout'',
            w\<lparr>files := f, calls := calls w @ [(Shell cmd, directory)]\<rparr>)"
  using assms by (rule run_timeout)

theorem timeout_leaves_files_witness:
  "fst (run_specimin times_out ''cf-1'' ''./gradlew run'' ''ISSUES/specimin'' bare_world) =
     Result ''cf-1'' ''FAIL'' ''Timeout'' \<and>
   files (snd (run_specimin times_out ''cf-1'' ''./gradlew run'' ''ISSUES/specimin'' bare_world))
     = files bare_world \<and>
   files bare_world [''home'', ''user'', ''ISSUES'', ''cf-1'', ''cf-1_error.txt''] = None"
proof -
  have "times_out (Shell ''./gradlew run'') ''ISSUES/specimin'' (Some TIMEOUT_DURATION)
          bare_world = (Inl (TimeoutExpired ''timed out''), files bare_world)"
    by (simp add: times_out_def)
  from timeout_leaves_files [where proc = times_out and w = bare_world
      and issue_name = "''cf-1''", OF this]
  show ?thesis
    by (simp add: bare_world_def)
qed








section \<open>Properties of the repository operations\<close>

text \<open>
  Claim C3, as amended. \<^verbatim>\<open>change_branch\<close> and \<^verbatim>\<open>checkout_commit\<close> both raise \<^verbatim>\<open>ValueError\<close>,
  without running anything, when the directory has no \<^verbatim>\<open>.git\<close> directory. When it has one
  and the checkout process completes, \<^verbatim>\<open>change_branch\<close> returns normally whatever the exit
  code, and \<^verbatim>\<open>checkout_commit\<close> returns the boolean that is true exactly when the exit code
  is zero. In \<^verbatim>\<open>performEvaluation\<close> the \<^verbatim>\<open>ValueError\<close> of \<^verbatim>\<open>change_branch\<close> is not caught: when
  the layout and the clone step return, a branch is named and the cloned directory has no
  \<^verbatim>\<open>.git\<close> directory, the evaluation of the issue ends with that exception.
\<close>

theorem checkout_policy:
  "(\<not> is_git_directory directory w \<longrightarrow>
      change_branch proc b directory w =
        (Inl (ValueError (directory @ '' is not a valid git directory'')), w) \<and>
      checkout_commit proc h directory w =
        (Inl (ValueError (directory @ '' is not a valid git directory'')), w)) \<and>
   (is_git_directory directory w \<longrightarrow>
      (\<forall>c. fst (proc (Args [''git'', ''checkout'', b]) directory None w) = Inr c \<longrightarrow>
           fst (change_branch proc b directory w) = Inr ()) \<and>
      (\<forall>c. fst (proc (Args [''git'', ''checkout'', h]) directory None w) = Inr c \<longrightarrow>
           fst (checkout_commit proc h directory w) = Inr (returncode c = 0))) \<and>
   (\<forall>input_dir.
      fst (create_issue_directory issue_folder_dir (issue_id issue) w) = Inr input_dir \<and>
      fst (clone_repository proc (url issue) input_dir
             (snd (create_issue_directory issue_folder_dir (issue_id issue) w))) = Inr () \<and>
      branch issue \<noteq> [] \<and>
      \<not> is_git_directory (input_dir @ ''/'' @ get_repository_name (url issue))
          (snd (clone_repository proc (url issue) input_dir
                  (snd (create_issue_directory issue_folder_dir (issue_id issue) w)))) \<longrightarrow>
      fst (performEvaluation proc issue w) =
        Inl (ValueError ((input_dir @ ''/'' @ get_repository_name (url issue)) @
                         '' is not a valid git directory'')))"
proof (intro conjI impI allI)
  assume "\<not> is_git_directory directory w"
  then show "change_branch proc b directory w =
        (Inl (ValueError (directory @ '' is not a valid git directory'')), w)"
    and "checkout_commit proc h directory w =
        (Inl (ValueError (directory @ '' is not a valid git directory'')), w)"
    by (simp_all add: change_branch_def checkout_commit_def)
next
  fix c
  assume "is_git_directory directory w"
    and "fst (proc (Args [''git'', ''checkout'', b]) directory None w) = Inr c"
  then show "fst (change_branch proc b directory w) = Inr ()"
    by (cases "proc (Args [''git'', ''checkout'', b]) directory None w")
      (simp add: change_branch_def subprocess_run_def and_then_def)
next
  fix c
  assume "is_git_directory directory w"
    and "fst (proc (Args [''git'', ''checkout'', h]) directory None w) = Inr c"
  then show "fst (checkout_commit proc h directory w) = Inr (returncode c = 0)"
    by (cases "proc (Args [''git'', ''checkout'', h]) directory None w")
      (simp add: checkout_commit_def subprocess_run_def and_then_def)
next
  fix input_dir
  let ?cr = "create_issue_directory issue_folder_dir (issue_id issue) w"
  let ?cl = "clone_repository proc (url issue) input_dir (snd ?cr)"
  let ?d = "input_dir @ ''/'' @ get_repository_name (url issue)"
  assume a: "fst ?cr = Inr input_dir \<and> fst ?cl = Inr () \<and> branch issue \<noteq> [] \<and>
             \<not> is_git_directory ?d (snd ?cl)"
  then have cr: "?cr = (Inr input_dir, snd ?cr)" and cl: "?cl = (Inr (), snd ?cl)"
    by (metis prod.collapse)+
  have "change_branch proc (branch issue) ?d (snd ?cl) =
          (Inl (ValueError (?d @ '' is not a valid git directory'')), snd ?cl)"
    using a by (simp add: change_branch_def)
  then have "performEvaluation proc issue w =
          (Inl (ValueError (?d @ '' is not a valid git directory'')), snd ?cl)"
    unfolding performEvaluation_def
    by (subst cr, simp add: and_then_def Let_def, subst cl, simp add: a)
  then show "fst (performEvaluation proc issue w) =
          Inl (ValueError (?d @ '' is not a valid git directory''))"
    by simp
qed

theorem checkout_policy_witness:
  "fst (change_branch (exits_with 1 ''error: pathspec'') ''dev'' ''ISSUES/cf-1/input/repo''
          stale_world) = Inr () \<and>
   fst (checkout_commit (exits_with 1 ''error: pathspec'') ''abc123'' ''ISSUES/cf-1/input/repo''
          stale_world) = Inr False \<and>
   fst (checkout_commit (exits_with 0 []) ''abc123'' ''ISSUES/cf-1/input/repo''
          stale_world) = Inr True \<and>
   fst (change_branch (exits_with 0 []) ''dev'' ''ISSUES/cf-2/input/repo'' bare_world) =
     Inl (ValueError ''ISSUES/cf-2/input/repo is not a valid git directory'') \<and>
   fst (performEvaluation (exits_with 128 ''fatal: unable to access'') branch_issue bare_world) =
     Inl (ValueError ''ISSUES/cf-2/input/repo is not a valid git directory'')"
proof -
  have git: "is_git_directory ''ISSUES/cf-1/input/repo'' stale_world"
    by code_simp
  have nogit: "\<not> is_git_directory ''ISSUES/cf-2/input/repo'' bare_world"
    by code_simp
  have r1: "fst (exits_with 1 ''error: pathspec'' (Args [''git'', ''checkout'', ''dev''])
              ''ISSUES/cf-1/input/repo'' None stale_world) =
            Inr \<lparr>returncode = 1, stdout = [], stderr = ''error: pathspec''\<rparr>"
    and r2: "fst (exits_with 1 ''error: pathspec'' (Args [''git'', ''checkout'', ''abc123''])
              ''ISSUES/cf-1/input/repo'' None stale_world) =
            Inr \<lparr>returncode = 1, stdout = [], stderr = ''error: pathspec''\<rparr>"
    and r3: "fst (exits_with 0 [] (Args [''git'', ''checkout'', ''abc123''])
              ''ISSUES/cf-1/input/repo'' None stale_world) =
            Inr \<lparr>returncode = 0, stdout = [], stderr = []\<rparr>"
    by (simp_all add: exits_with_def)
  from checkout_policy [where proc = "exits_with 1 ''error: pathspec''" and b = "''dev''"
      and h = "''abc123''" and directory = "''ISSUES/cf-1/input/repo''" and w = stale_world]
    git r1 r2
  have a: "fst (change_branch (exits_with 1 ''error: pathspec'') ''dev''
                  ''ISSUES/cf-1/input/repo'' stale_world) = Inr ()"
    and b: "fst (checkout_commit (exits_with 1 ''error: pathspec'') ''abc123''
                  ''ISSUES/cf-1/input/repo'' stale_world) = Inr False"
    by auto
  from checkout_policy [where proc = "exits_with 0 []" and h = "''abc123''"
      and directory = "''ISSUES/cf-1/input/repo''" and w = stale_world]
    git r3
  have c: "fst (checkout_commit (exits_with 0 []) ''abc123'' ''ISSUES/cf-1/input/repo''
                  stale_world) = Inr True"
    by auto
  from checkout_policy [where proc = "exits_with 0 []" and b = "''dev''"
      and directory = "''ISSUES/cf-2/input/repo''" and w = bare_world]
    nogit
  have d: "fst (change_branch (exits_with 0 []) ''dev'' ''ISSUES/cf-2/input/repo'' bare_world) =
     Inl (ValueError ''ISSUES/cf-2/input/repo is not a valid git directory'')"
    by simp
  let ?P = "exits_with 128 ''fatal: unable to access''"
  have h1: "fst (create_issue_directory issue_folder_dir (issue_id branch_issue) bare_world) =
              Inr ''ISSUES/cf-2/input''"
    by code_simp
  have h2: "fst (clone_repository ?P (url branch_issue) ''ISSUES/cf-2/input''
             (snd (create_issue_directory issue_folder_dir (issue_id branch_issue) bare_world)))
              = Inr ()"
    by code_simp
  have h3: "branch branch_issue \<noteq> []"
    by (simp add: branch_issue_def)
  have h4: "\<not> is_git_directory (''ISSUES/cf-2/input'' @ ''/'' @
               get_repository_name (url branch_issue))
          (snd (clone_repository ?P (url branch_issue) ''ISSUES/cf-2/input''
                  (snd (create_issue_directory issue_folder_dir (issue_id branch_issue)
                     bare_world))))"
    by code_simp
  have nm: "get_repository_name (url branch_issue) = ''repo''"
    by code_simp
  from checkout_policy [where proc = ?P and issue = branch_issue and w = bare_world]
    h1 h2 h3 h4
  have "fst (performEvaluation ?P branch_issue bare_world) =
        Inl (ValueError ((''ISSUES/cf-2/input'' @ ''/'' @ get_repository_name (url branch_issue)) @
                         '' is not a valid git directory''))"
    by blast
  then have e: "fst (performEvaluation ?P branch_issue bare_world) =
     Inl (ValueError ''ISSUES/cf-2/input/repo is not a valid git directory'')"
    by (simp add: nm)
  from a b c d e show ?thesis by blast
qed

text \<open>
  The claim as stated fails for the failure of the checkout itself: in a repository, a
  branch checkout that exits with code 1 raises nothing.
\<close>

theorem failed_branch_checkout_counterexample:
  "fst (exits_with 1 ''error: pathspec'' (Args [''git'', ''checkout'', ''dev''])
          ''ISSUES/cf-1/input/repo'' None stale_world) =
     Inr \<lparr>returncode = 1, stdout = [], stderr = ''error: pathspec''\<rparr> \<and>
   is_git_directory ''ISSUES/cf-1/input/repo'' stale_world \<and>
   fst (change_branch (exits_with 1 ''error: pathspec'') ''dev'' ''ISSUES/cf-1/input/repo''
          stale_world) = Inr ()"
  by code_simp

text \<open>
  Claim C9, as amended. When the directory named after the repository exists under the
  given directory, \<^verbatim>\<open>clone_repository\<close> returns normally and leaves the world as it is: it
  runs no command. When it does not exist, exactly one \<^verbatim>\<open>git clone\<close> is run. So, of two
  calls in a row, the second runs nothing provided the first has left that directory in
  place, and then at most one clone has been run.
\<close>

theorem clone_idempotent:
  "(path_exists w (directory @ ''/'' @ get_repository_name u) \<longrightarrow>
      clone_repository proc u directory w = (Inr (), w)) \<and>
   (\<not> path_exists w (directory @ ''/'' @ get_repository_name u) \<longrightarrow>
      calls (snd (clone_repository proc u directory w)) =
        calls w @ [(Args [''git'', ''clone'', u], directory)]) \<and>
   (path_exists (snd (clone_repository proc u directory w))
        (directory @ ''/'' @ get_repository_name u) \<longrightarrow>
      clone_repository proc u directory (snd (clone_repository proc u directory w)) =
        (Inr (), snd (clone_repository proc u directory w)) \<and>
      length (calls (snd (clone_repository proc u directory
                (snd (clone_repository proc u directory w))))) \<le> length (calls w) + 1)"
proof -
  have noop: "\<And>w. path_exists w (directory @ ''/'' @ get_repository_name u) \<Longrightarrow>
      clone_repository proc u directory w = (Inr (), w)"
    by (simp add: clone_repository_def)
  have once: "length (calls (snd (clone_repository proc u directory w))) \<le> length (calls w) + 1"
    by (cases "proc (Args [''git'', ''clone'', u]) directory None w")
      (auto simp: clone_repository_def subprocess_run_def and_then_def Let_def
        split: sum.splits)
  have rec: "\<not> path_exists w (directory @ ''/'' @ get_repository_name u) \<Longrightarrow>
      calls (snd (clone_repository proc u directory w)) =
        calls w @ [(Args [''git'', ''clone'', u], directory)]"
    by (cases "proc (Args [''git'', ''clone'', u]) directory None w")
      (auto simp: clone_repository_def subprocess_run_def and_then_def Let_def
        split: sum.splits)
  show ?thesis
    using noop once rec by simp
qed

theorem clone_idempotent_witness:
  "fst (clone_repository (clones_into [''home'', ''user'', ''ISSUES'', ''repo'']) repo_url ''ISSUES''
     (snd (clone_repository (clones_into [''home'', ''user'', ''ISSUES'', ''repo'']) repo_url
        ''ISSUES'' bare_world))) = Inr () \<and>
   calls (snd (clone_repository (clones_into [''home'', ''user'', ''ISSUES'', ''repo'']) repo_url
     ''ISSUES''
     (snd (clone_repository (clones_into [''home'', ''user'', ''ISSUES'', ''repo'']) repo_url
        ''ISSUES'' bare_world)))) = [(Args [''git'', ''clone'', repo_url], ''ISSUES'')]"
proof -
  let ?P = "clones_into [''home'', ''user'', ''ISSUES'', ''repo'']"
  let ?w1 = "snd (clone_repository ?P repo_url ''ISSUES'' bare_world)"
  have absent: "\<not> path_exists bare_world (''ISSUES'' @ ''/'' @ get_repository_name repo_url)"
    by code_simp
  have present: "path_exists ?w1 (''ISSUES'' @ ''/'' @ get_repository_name repo_url)"
    by code_simp
  have nocalls: "calls bare_world = []"
    by (simp add: bare_world_def)
  note inst = clone_idempotent [where proc = ?P and u = repo_url and directory = "''ISSUES''"
      and w = bare_world]
  from inst present have second: "clone_repository ?P repo_url ''ISSUES'' ?w1 = (Inr (), ?w1)"
    by blast
  from inst absent have "calls ?w1 = calls bare_world @ [(Args [''git'', ''clone'', repo_url],
      ''ISSUES'')]"
    by blast
  with second nocalls show ?thesis by simp
qed

text \<open>
  The claim as stated fails when the first clone does not produce the directory: a clone
  that exits with code 128 and creates nothing is run again by the second call.
\<close>

theorem failed_clone_counterexample:
  "calls (snd (clone_repository (exits_with 128 ''fatal: unable to access'') repo_url ''ISSUES''
     (snd (clone_repository (exits_with 128 ''fatal: unable to access'') repo_url ''ISSUES''
        bare_world)))) =
     [(Args [''git'', ''clone'', repo_url], ''ISSUES''),
      (Args [''git'', ''clone'', repo_url], ''ISSUES'')]"
  by code_simp

section \<open>Properties of the batch loop and of the directory layout\<close>









text \<open>
  Claim C1, at a failing input. \<^verbatim>\<open>create_issue_directory\<close> tests and removes \<^verbatim>\<open>output\<close> in the
  working directory, not the output directory of the issue. Called for an issue whose
  output directory holds a file from an earlier run, it returns the input directory and
  the file is still there.
\<close>

theorem stale_output_survives:
  "fst (create_issue_directory ''ISSUES'' ''cf-1'' stale_world) = Inr ''ISSUES/cf-1/input'' \<and>
   path_exists stale_world ''ISSUES/cf-1/output'' \<and>
   files (snd (create_issue_directory ''ISSUES'' ''cf-1'' stale_world))
     [''home'', ''user'', ''ISSUES'', ''cf-1'', ''output'', ''Old.java''] = Some (File ''stale'')"
  by code_simp

end
